theory Spec2Isabelle
  imports Complex_Main
begin

section \<open>Data model of \<^verbatim>\<open>server/main.js\<close>\<close>

text \<open>
  The server is one Node.js module. Its shared state is the object \<^verbatim>\<open>captureState\<close>, the
  Mongo collection \<^verbatim>\<open>videosCollection\<close> and the socket.io channel \<^verbatim>\<open>io\<close>. The code runs
  on a single-threaded event loop: a piece of code between two \<^verbatim>\<open>await\<close>s runs
  without interruption, and at every \<^verbatim>\<open>await\<close> other requests, subprocess callbacks and
  timers may run. The embedding keeps exactly this granularity.

  Times (\<^verbatim>\<open>new Date()\<close>) are milliseconds as \<open>nat\<close>, read from a clock that the
  environment advances. Identifiers from \<^verbatim>\<open>uuidv4()\<close> are strings chosen by the
  environment. The field \<^verbatim>\<open>_id\<close> of a document is its position in the collection.
\<close>

datatype status = Recording | Completed | Error

record video =
  recordingId :: string
  filename :: string
  filepath :: string
  status :: status
  startTime :: nat
  "notes" :: string
  createdAt :: nat
  updatedAt :: nat
  uploadedToRemote :: bool
  error :: "string option"
  endTime :: "nat option"
  duration :: "rat option"
  uploadError :: "string option"
  sftpLocation :: "string option"
  s3Location :: "string option"

text \<open>
  \<^verbatim>\<open>captureState\<close> (lines 93-99). The fields \<^verbatim>\<open>previewStopping\<close> and \<^verbatim>\<open>stopRequested\<close>
  are added by assignment later; before that they are \<^verbatim>\<open>undefined\<close>, which every test in
  the code treats as false. A subprocess object is named by a number.
\<close>

record captureState =
  isCapturing :: bool
  isPreviewing :: bool
  currentRecording :: "video option"
  ffmpegProcess :: "nat option"
  previewProcess :: "nat option"
  previewStopping :: bool
  stopRequested :: bool

record config =
  UPLOADS_DIR :: string
  UPLOAD_METHOD :: string
  SFTP_username :: string
  SFTP_host :: string
  SFTP_uploadDir :: string

subsection \<open>Strings\<close>

text \<open>\<^verbatim>\<open>s.includes(sub)\<close>: \<open>sub\<close> occurs in \<open>s\<close> as a contiguous block.\<close>

fun str_includes :: "string \<Rightarrow> string \<Rightarrow> bool" where
  "str_includes [] sub = (sub = [])"
| "str_includes (c # cs) sub = (take (length sub) (c # cs) = sub \<or> str_includes cs sub)"

text \<open>A JavaScript string is truthy when it is not empty.\<close>

definition truthy :: "string \<Rightarrow> bool" where
  "truthy s = (s \<noteq> [])"

text \<open>
  \<^verbatim>\<open>path.basename\<close>: the last portion of the path, slashes at its end ignored.
\<close>

definition basename :: "string \<Rightarrow> string" where
  "basename p =
     rev (takeWhile (\<lambda>c. c \<noteq> CHR ''/'') (dropWhile (\<lambda>c. c = CHR ''/'') (rev p)))"

subsection \<open>The document store\<close>

text \<open>
  \<^verbatim>\<open>videosCollection.updateOne({recordingId}, {$set: ...})\<close> changes the first document
  with that \<^verbatim>\<open>recordingId\<close>. Its result carries \<^verbatim>\<open>modifiedCount\<close>, which MongoDB sets to
  the number of documents the update really changed: a \<^verbatim>\<open>$set\<close> that writes the values
  a document already has matches it and modifies nothing.
\<close>

fun updateOne :: "string \<Rightarrow> (video \<Rightarrow> video) \<Rightarrow> video list \<Rightarrow> video list \<times> nat" where
  "updateOne rid f [] = ([], 0)"
| "updateOne rid f (v # vs) =
     (if recordingId v = rid then (f v # vs, if f v = v then 0 else 1)
      else (v # fst (updateOne rid f vs), snd (updateOne rid f vs)))"

text \<open>
  \<^verbatim>\<open>updateNotes\<close> (lines 581-590). \<^verbatim>\<open>videosCollection\<close> is \<^verbatim>\<open>undefined\<close> (\<open>None\<close>) when the
  connection to MongoDB failed at startup. The result is the returned boolean and the
  collection after the call.
\<close>

definition updateNotes :: "string \<Rightarrow> string \<Rightarrow> nat \<Rightarrow> video list option \<Rightarrow> bool \<times> video list option" where
  "updateNotes rid n now coll =
     (case coll of
        Some vs \<Rightarrow>
          (let result = updateOne rid (\<lambda>v. v\<lparr>notes := n, updatedAt := now\<rparr>) vs
           in (snd result > 0, Some (fst result)))
      | None \<Rightarrow> (False, None))"

subsection \<open>Device Access Guard\<close>

text \<open>
  \<^verbatim>\<open>checkDeviceAccess\<close> (lines 131-159). \<open>probe n\<close> is what \<^verbatim>\<open>fs.access\<close> reports at the
  \<open>n\<close>-th attempt: \<open>None\<close> when the device is readable and writable, \<open>Some m\<close> for an
  error with message \<open>m\<close>. The result is \<open>Inl\<close> the message of the rejection.
\<close>

function tryAccess :: "(nat \<Rightarrow> string option) \<Rightarrow> nat \<Rightarrow> nat \<Rightarrow> string + bool" where
  "tryAccess probe maxRetries attempts =
     (case probe (attempts + 1) of
        Some m \<Rightarrow>
          (if attempts + 1 < maxRetries then tryAccess probe maxRetries (attempts + 1)
           else Inl (''Device is busy or inaccessible: '' @ m))
      | None \<Rightarrow> Inr True)"
  by pat_completeness auto
termination
  by (relation "measure (\<lambda>(probe, maxRetries, attempts). maxRetries - attempts)") auto

definition checkDeviceAccess :: "(nat \<Rightarrow> string option) \<Rightarrow> nat \<Rightarrow> string + bool" where
  "checkDeviceAccess probe maxRetries = tryAccess probe maxRetries 0"

section \<open>The event loop\<close>

subsection \<open>What the server sends out\<close>

text \<open>The socket.io events of \<^verbatim>\<open>io.emit\<close>, with the payload fields the code fills in.\<close>

datatype notification =
    PreviewStarted
  | PreviewError string
  | PreviewStopped
  | CaptureStarted string nat
  | CaptureError string
  | UploadComplete string
  | UploadError string
  | CaptureEnded string nat

text \<open>
  What a call hands back to the request layer: \<^verbatim>\<open>{success: true}\<close>,
  \<^verbatim>\<open>{success: false, error: 'Not previewing'}\<close>, \<^verbatim>\<open>{recordingId, startTime}\<close>, a boolean, or a
  thrown \<^verbatim>\<open>Error\<close> with its message; \<^verbatim>\<open>uploadFile\<close> returns \<^verbatim>\<open>{Location}\<close>.
\<close>

datatype outcome =
    RetSuccess
  | RetNotPreviewing
  | RetCapture string nat
  | RetBool bool
  | RetLocation string
  | Thrown string

datatype fn = FStartPreview | FStopPreview | FStartCapture | FStopRoute | FUpdateNotes

text \<open>How a promise is settled.\<close>

datatype settle = Fulfilled outcome | Rejected string

subsection \<open>Subprocesses and their listeners\<close>

text \<open>
  Modelled from the spec: the fluent-ffmpeg command object is not part of the repository.
  Following section 4.2 of the specification, a subprocess reports \<^verbatim>\<open>start\<close> once after
  it was spawned and then exactly one of \<^verbatim>\<open>end\<close> and \<^verbatim>\<open>error\<close>; an \<^verbatim>\<open>error\<close> may also
  come before \<^verbatim>\<open>start\<close>. \<^verbatim>\<open>kill\<close> only sends the signal. An event runs the listeners
  registered with \<^verbatim>\<open>.on\<close> in the order of registration.

  Each listener of the source is one constructor, carrying the variables its closure
  captured: the listeners of \<^verbatim>\<open>startPreview\<close> (lines 191-205), of \<^verbatim>\<open>stopPreview\<close>
  (lines 223-252), of \<^verbatim>\<open>startCapture\<close> (lines 361-435) and of \<^verbatim>\<open>stopCapture\<close>
  (lines 454-474). The number in a stop listener names the call it belongs to, and so
  its variable \<^verbatim>\<open>resolved\<close> and its promise.
\<close>

datatype pstate = Spawned | Running | Exited

datatype listener =
    PreviewOnStart
  | PreviewOnError
  | StopPreviewOnEnd nat
  | StopPreviewOnError nat
  | CaptureOnStart string nat
  | CaptureOnError string
  | CaptureOnEnd string nat string
  | StopCaptureOnEnd nat
  | StopCaptureOnError nat

record proc =
  pstate :: pstate
  onStart :: "listener list"
  onError :: "listener list"
  onEnd :: "listener list"

subsection \<open>Suspended code\<close>

text \<open>
  The code after an \<^verbatim>\<open>await\<close>, with the local variables it still needs. \<open>caller\<close> tells
  which of the two finalisation paths called \<^verbatim>\<open>uploadFile\<close>: the \<^verbatim>\<open>end\<close> listener of
  \<^verbatim>\<open>startCapture\<close> (lines 386-435) or the route \<^verbatim>\<open>POST /api/capture/stop\<close>
  (lines 619-678).
\<close>

datatype caller = FromEndHandler | FromStopRoute

datatype cont =
    K_startCapture_stopPreview string
  | K_startCapture_checkDeviceAccess string
  | K_startCapture_insertOne video
  | K_previewStopRoute
  | K_captureError_updateOne string
  | K_captureEnd_updateOne string string nat
  | K_stopRoute_stopCapture "string option"
  | K_stopRoute_updateOne string nat
  | K_uploadToSFTP caller string string nat
  | K_uploadToS3 caller string string nat
  | K_upload_updateOne caller string nat string
  | K_uploadFile caller string nat
  | K_uploaded_updateOne caller string nat
  | K_uploadError_updateOne caller string nat string
  | K_updateNotes bool

text \<open>
  One call of \<^verbatim>\<open>stopPreview\<close> or \<^verbatim>\<open>stopCapture\<close> that reached its promise: the variable
  \<^verbatim>\<open>resolved\<close>, the timer of \<^verbatim>\<open>setTimeout\<close> and the code waiting for the promise.
\<close>

datatype stopKind = StopPreviewCall | StopCaptureCall

record stopCall =
  kind :: stopKind
  resolved :: bool
  deadline :: nat
  fired :: bool
  waiter :: cont

record world =
  cfg :: config
  cs :: captureState
  videosCollection :: "video list option"
  emitted :: "notification list"
  replies :: "(fn \<times> outcome) list"
  uploads :: "(string \<times> string) list"
  kills :: "nat list"
  procs :: "nat \<rightharpoonup> proc"
  nextPid :: nat
  stops :: "nat \<rightharpoonup> stopCall"
  nextStop :: nat
  tasks :: "nat \<rightharpoonup> cont"
  nextTask :: nat
  micro :: "(cont \<times> settle) list"
  clock :: nat

text \<open>
  \<open>emitted\<close> are the notifications in the order of \<^verbatim>\<open>io.emit\<close>, \<open>replies\<close> the results
  of the calls, \<open>uploads\<close> the calls of \<^verbatim>\<open>uploadFile(filepath, recordingId)\<close>, \<open>kills\<close>
  the subprocesses sent \<^verbatim>\<open>SIGTERM\<close>. \<open>tasks\<close> holds the code waiting for input or
  output (the device probe, the store, a transfer), \<open>micro\<close> the code waiting for a
  promise that is already settled, which runs before any other event.
\<close>

definition emit :: "notification \<Rightarrow> world \<Rightarrow> world" where
  "emit n w = w\<lparr>emitted := emitted w @ [n]\<rparr>"

definition reply :: "fn \<Rightarrow> outcome \<Rightarrow> world \<Rightarrow> world" where
  "reply f r w = w\<lparr>replies := replies w @ [(f, r)]\<rparr>"

definition park :: "cont \<Rightarrow> world \<Rightarrow> world" where
  "park k w = w\<lparr>tasks := (tasks w)(nextTask w \<mapsto> k), nextTask := Suc (nextTask w)\<rparr>"

definition enqueue :: "cont \<Rightarrow> settle \<Rightarrow> world \<Rightarrow> world" where
  "enqueue k v w = w\<lparr>micro := micro w @ [(k, v)]\<rparr>"

text \<open>
  A write to the store takes effect when it is issued. \<^verbatim>\<open>if (videosCollection) await
  ...\<close> suspends the caller only when the collection exists.
\<close>

definition dbUpdateOne :: "string \<Rightarrow> (video \<Rightarrow> video) \<Rightarrow> world \<Rightarrow> world" where
  "dbUpdateOne rid f w =
     (case videosCollection w of
        Some vs \<Rightarrow> w\<lparr>videosCollection := Some (fst (updateOne rid f vs))\<rparr>
      | None \<Rightarrow> w)"

definition launch :: "listener list \<Rightarrow> listener list \<Rightarrow> listener list \<Rightarrow> world \<Rightarrow> world" where
  "launch s e n w =
     w\<lparr>procs := (procs w)(nextPid w \<mapsto> \<lparr>pstate = Spawned, onStart = s, onError = e, onEnd = n\<rparr>),
       nextPid := Suc (nextPid w)\<rparr>"

definition addListeners :: "nat \<Rightarrow> listener \<Rightarrow> listener \<Rightarrow> world \<Rightarrow> world" where
  "addListeners p n e w =
     (case procs w p of
        Some pr \<Rightarrow> w\<lparr>procs := (procs w)(p \<mapsto> pr\<lparr>onEnd := onEnd pr @ [n], onError := onError pr @ [e]\<rparr>)\<rparr>
      | None \<Rightarrow> w)"

definition newStop :: "stopKind \<Rightarrow> nat \<Rightarrow> cont \<Rightarrow> world \<Rightarrow> world" where
  "newStop sk ms k w =
     w\<lparr>stops := (stops w)(nextStop w \<mapsto>
          \<lparr>kind = sk, resolved = False, deadline = clock w + ms, fired = False, waiter = k\<rparr>),
       nextStop := Suc (nextStop w)\<rparr>"

subsection \<open>Upload Dispatcher and finalisation\<close>

text \<open>
  The last lines of the two finalisation paths: lines 433-434 in the \<^verbatim>\<open>end\<close> listener,
  lines 668-674 in the stop route.
\<close>

definition finish :: "caller \<Rightarrow> string \<Rightarrow> nat \<Rightarrow> world \<Rightarrow> world" where
  "finish c rid endT w =
     (case c of
        FromEndHandler \<Rightarrow>
          cs_update (\<lambda>c. c\<lparr>currentRecording := None\<rparr>) (emit (CaptureEnded rid endT) w)
      | FromStopRoute \<Rightarrow>
          reply FStopRoute RetSuccess
            (cs_update (\<lambda>c. c\<lparr>isCapturing := False, currentRecording := None, stopRequested := False\<rparr>)
               (emit (CaptureEnded rid endT) w)))"

text \<open>
  The \<^verbatim>\<open>try\<close>/\<^verbatim>\<open>catch\<close> around \<^verbatim>\<open>await uploadFile(...)\<close> (lines 413-431 and 647-665), from
  the point where the promise of \<^verbatim>\<open>uploadFile\<close> is settled.
\<close>

definition afterUpload :: "caller \<Rightarrow> string \<Rightarrow> nat \<Rightarrow> settle \<Rightarrow> world \<Rightarrow> world" where
  "afterUpload c rid endT r w =
     (case r of
        Fulfilled res \<Rightarrow>
          (case videosCollection w of
             Some vs \<Rightarrow>
               park (K_uploaded_updateOne c rid endT)
                 (dbUpdateOne rid (\<lambda>v. v\<lparr>uploadedToRemote := True, updatedAt := clock w\<rparr>) w)
           | None \<Rightarrow> finish c rid endT (emit (UploadComplete rid) w))
      | Rejected m \<Rightarrow>
          (case videosCollection w of
             Some vs \<Rightarrow>
               park (K_uploadError_updateOne c rid endT m)
                 (dbUpdateOne rid
                    (\<lambda>v. v\<lparr>uploadedToRemote := False, uploadError := Some m, updatedAt := clock w\<rparr>) w)
           | None \<Rightarrow> finish c rid endT (emit (UploadError m) w)))"

text \<open>
  \<^verbatim>\<open>uploadFile\<close> (lines 491-501). The transfer itself (SFTP connect, mkdir, put, end; S3
  read and upload) is input and output: the environment reports it later as \<open>Inl\<close> the
  message of the failure or \<open>Inr\<close> the location the backend reports.
\<close>

definition uploadFile :: "caller \<Rightarrow> string \<Rightarrow> string \<Rightarrow> nat \<Rightarrow> world \<Rightarrow> world" where
  "uploadFile c fp rid endT w =
     (let w1 = w\<lparr>uploads := uploads w @ [(fp, rid)]\<rparr>
      in if UPLOAD_METHOD (cfg w) = ''sftp'' then park (K_uploadToSFTP c fp rid endT) w1
         else if UPLOAD_METHOD (cfg w) = ''s3'' then park (K_uploadToS3 c fp rid endT) w1
         else enqueue (K_uploadFile c rid endT) (Fulfilled (RetLocation fp)) w1)"

text \<open>\<^verbatim>\<open>uploadToSFTP\<close> (lines 504-550), from the end of the transfer.\<close>

definition uploadToSFTP :: "caller \<Rightarrow> string \<Rightarrow> string \<Rightarrow> nat \<Rightarrow> string + string \<Rightarrow> world \<Rightarrow> world" where
  "uploadToSFTP c fp rid endT r w =
     (case r of
        Inl m \<Rightarrow> afterUpload c rid endT (Rejected m) w
      | Inr x \<Rightarrow>
          (let remotePath = SFTP_uploadDir (cfg w) @ ''/'' @ rid @ ''/'' @ basename fp;
               loc = ''sftp://'' @ SFTP_username (cfg w) @ ''@'' @ SFTP_host (cfg w) @ remotePath
           in case videosCollection w of
                Some vs \<Rightarrow>
                  park (K_upload_updateOne c rid endT loc)
                    (dbUpdateOne rid
                       (\<lambda>v. v\<lparr>sftpLocation := Some loc, uploadedToRemote := True, updatedAt := clock w\<rparr>) w)
              | None \<Rightarrow> afterUpload c rid endT (Fulfilled (RetLocation loc)) w))"

text \<open>\<^verbatim>\<open>uploadToS3\<close> (lines 553-578), from the end of the transfer.\<close>

definition uploadToS3 :: "caller \<Rightarrow> string \<Rightarrow> string \<Rightarrow> nat \<Rightarrow> string + string \<Rightarrow> world \<Rightarrow> world" where
  "uploadToS3 c fp rid endT r w =
     (case r of
        Inl m \<Rightarrow> afterUpload c rid endT (Rejected m) w
      | Inr loc \<Rightarrow>
          (case videosCollection w of
             Some vs \<Rightarrow>
               park (K_upload_updateOne c rid endT loc)
                 (dbUpdateOne rid
                    (\<lambda>v. v\<lparr>s3Location := Some loc, uploadedToRemote := True, updatedAt := clock w\<rparr>) w)
           | None \<Rightarrow> afterUpload c rid endT (Fulfilled (RetLocation loc)) w))"

subsection \<open>Listeners of the recording subprocess\<close>

definition errorMsgOf :: "string \<Rightarrow> string option \<Rightarrow> string" where
  "errorMsgOf msg stderr =
     msg @ [CHR 0x0A, CHR 0x0A] @ ''FFmpeg stderr:'' @ [CHR 0x0A] @
       (case stderr of
          Some s \<Rightarrow> if truthy s then s else ''No stderr output''
        | None \<Rightarrow> ''No stderr output'')"

text \<open>The test of line 369.\<close>

definition normalTermination :: "string option \<Rightarrow> bool" where
  "normalTermination stderr =
     (case stderr of
        Some s \<Rightarrow> truthy s \<and> str_includes s ''Exiting normally, received signal 15''
      | None \<Rightarrow> False)"

text \<open>The \<^verbatim>\<open>error\<close> listener of \<^verbatim>\<open>startCapture\<close> (lines 365-385).\<close>

definition captureOnError :: "string \<Rightarrow> string \<Rightarrow> string option \<Rightarrow> world \<Rightarrow> world" where
  "captureOnError rid msg stderr w =
     (let errorMsg = errorMsgOf msg stderr
      in if normalTermination stderr then w
         else (let w1 = cs_update (\<lambda>c. c\<lparr>isCapturing := False\<rparr>) w
               in case videosCollection w1 of
                    Some vs \<Rightarrow>
                      park (K_captureError_updateOne errorMsg)
                        (dbUpdateOne rid
                           (\<lambda>v. v\<lparr>status := Error, error := Some errorMsg, updatedAt := clock w\<rparr>) w1)
                  | None \<Rightarrow> emit (CaptureError errorMsg) w1))"

text \<open>The \<^verbatim>\<open>end\<close> listener of \<^verbatim>\<open>startCapture\<close> (lines 386-435).\<close>

definition captureOnEnd :: "string \<Rightarrow> nat \<Rightarrow> string \<Rightarrow> world \<Rightarrow> world" where
  "captureOnEnd rid startT fp w =
     (if stopRequested (cs w) then w
      else (let endT = clock w;
                w1 = cs_update (\<lambda>c. c\<lparr>isCapturing := False\<rparr>) w
            in case videosCollection w1 of
                 Some vs \<Rightarrow>
                   park (K_captureEnd_updateOne fp rid endT)
                     (dbUpdateOne rid
                        (\<lambda>v. v\<lparr>status := Completed, endTime := Some endT,
                               duration := Some (of_int (int endT - int startT) / 1000),
                               updatedAt := clock w\<rparr>) w1)
               | None \<Rightarrow> uploadFile FromEndHandler fp rid endT w1))"

subsection \<open>Preview\<close>

text \<open>The listeners of \<^verbatim>\<open>startPreview\<close> (lines 191-205).\<close>

definition previewOnStart :: "world \<Rightarrow> world" where
  "previewOnStart w = emit PreviewStarted (cs_update (\<lambda>c. c\<lparr>isPreviewing := True\<rparr>) w)"

definition previewOnError :: "string \<Rightarrow> world \<Rightarrow> world" where
  "previewOnError msg w =
     (if \<not> previewStopping (cs w)
      then emit (PreviewError msg) (cs_update (\<lambda>c. c\<lparr>isPreviewing := False\<rparr>) w)
      else w)"

text \<open>\<^verbatim>\<open>startPreview\<close> (lines 162-209).\<close>

definition startPreview :: "world \<Rightarrow> world" where
  "startPreview w =
     (if isPreviewing (cs w) \<or> isCapturing (cs w)
      then reply FStartPreview (Thrown ''Already previewing or capturing'') w
      else reply FStartPreview RetSuccess
             (launch [PreviewOnStart] [PreviewOnError] []
                (cs_update (\<lambda>c. c\<lparr>previewStopping := False, previewProcess := Some (nextPid w)\<rparr>) w)))"

text \<open>
  \<^verbatim>\<open>resolved = true; resolve(...)\<close> or \<^verbatim>\<open>reject(...)\<close> of the stop call \<open>j\<close>: the code
  waiting for the promise becomes ready to run.
\<close>

definition isResolved :: "nat \<Rightarrow> world \<Rightarrow> bool" where
  "isResolved j w = (case stops w j of Some sc \<Rightarrow> resolved sc | None \<Rightarrow> True)"

definition settleStop :: "nat \<Rightarrow> settle \<Rightarrow> world \<Rightarrow> world" where
  "settleStop j r w =
     (case stops w j of
        Some sc \<Rightarrow> enqueue (waiter sc) r (w\<lparr>stops := (stops w)(j \<mapsto> sc\<lparr>resolved := True\<rparr>)\<rparr>)
      | None \<Rightarrow> w)"

text \<open>The listeners and the timer callback of \<^verbatim>\<open>stopPreview\<close> (lines 223-263).\<close>

definition stopPreviewOnEnd :: "nat \<Rightarrow> world \<Rightarrow> world" where
  "stopPreviewOnEnd j w =
     (if \<not> isResolved j w
      then settleStop j (Fulfilled RetSuccess)
             (emit PreviewStopped
                (cs_update (\<lambda>c. c\<lparr>isPreviewing := False, previewStopping := False\<rparr>) w))
      else w)"

definition stopPreviewOnError :: "nat \<Rightarrow> string \<Rightarrow> world \<Rightarrow> world" where
  "stopPreviewOnError j msg w =
     (if truthy msg \<and> str_includes msg ''signal 15''
      then (if \<not> isResolved j w
            then settleStop j (Fulfilled RetSuccess)
                   (emit PreviewStopped
                      (cs_update (\<lambda>c. c\<lparr>isPreviewing := False, previewStopping := False\<rparr>) w))
            else w)
      else (if \<not> isResolved j w
            then settleStop j (Fulfilled RetSuccess)
                   (emit PreviewStopped
                      (cs_update (\<lambda>c. c\<lparr>isPreviewing := False, previewStopping := False\<rparr>) w))
            else w))"

definition stopPreviewTimeout :: "nat \<Rightarrow> world \<Rightarrow> world" where
  "stopPreviewTimeout j w =
     (if \<not> isResolved j w
      then settleStop j (Fulfilled RetSuccess)
             (cs_update (\<lambda>c. c\<lparr>isPreviewing := False, previewStopping := False\<rparr>) w)
      else w)"

text \<open>
  \<^verbatim>\<open>stopPreview\<close> (lines 212-265). \<open>k\<close> is the code of the caller that awaits the
  result.
\<close>

definition stopPreview :: "cont \<Rightarrow> world \<Rightarrow> world" where
  "stopPreview k w =
     (case previewProcess (cs w) of
        None \<Rightarrow> enqueue k (Fulfilled RetNotPreviewing) w
      | Some p \<Rightarrow>
          if \<not> isPreviewing (cs w) then enqueue k (Fulfilled RetNotPreviewing) w
          else (addListeners p (StopPreviewOnEnd (nextStop w)) (StopPreviewOnError (nextStop w))
                  (newStop StopPreviewCall 1000 k
                     (cs_update (\<lambda>c. c\<lparr>previewStopping := True\<rparr>) w)))
               \<lparr>kills := kills w @ [p]\<rparr>)"

subsection \<open>Recording\<close>

text \<open>Lines 310-438 of \<^verbatim>\<open>startCapture\<close>: after the record is stored.\<close>

definition startCapture_launch :: "video \<Rightarrow> world \<Rightarrow> world" where
  "startCapture_launch v w =
     reply FStartCapture (RetCapture (recordingId v) (startTime v))
       (launch [CaptureOnStart (recordingId v) (startTime v)]
               [CaptureOnError (recordingId v)]
               [CaptureOnEnd (recordingId v) (startTime v) (filepath v)]
          (cs_update
             (\<lambda>c. c\<lparr>isCapturing := True, currentRecording := Some v, stopRequested := False,
                    previewProcess := None, ffmpegProcess := Some (nextPid w)\<rparr>) w))"

text \<open>Lines 287-308: the record is made and inserted.\<close>

definition startCapture_create :: "string \<Rightarrow> string \<Rightarrow> world \<Rightarrow> world" where
  "startCapture_create n uuid w =
     (let v = \<lparr>recordingId = uuid, filename = uuid @ ''.mp4'',
               filepath = UPLOADS_DIR (cfg w) @ ''/'' @ uuid @ ''.mp4'',
               status = Recording, startTime = clock w, notes = n,
               createdAt = clock w, updatedAt = clock w, uploadedToRemote = False,
               error = None, endTime = None, duration = None, uploadError = None,
               sftpLocation = None, s3Location = None\<rparr>
      in case videosCollection w of
           Some vs \<Rightarrow> park (K_startCapture_insertOne v) (w\<lparr>videosCollection := Some (vs @ [v])\<rparr>)
         | None \<Rightarrow> startCapture_launch v w)"

text \<open>Lines 280-285: the result of the device check arrives.\<close>

definition startCapture_checked :: "string \<Rightarrow> (nat \<Rightarrow> string option) \<Rightarrow> string \<Rightarrow> world \<Rightarrow> world" where
  "startCapture_checked n probe uuid w =
     (case checkDeviceAccess probe 3 of
        Inl m \<Rightarrow>
          reply FStartCapture
            (Thrown (''Cannot access video device: '' @ m @
                     ''. Make sure no other application is using it.'')) w
      | Inr ok \<Rightarrow> startCapture_create n uuid w)"

text \<open>Lines 268-281: the state check, the preview stop, the call of the device check.\<close>

definition startCapture :: "string \<Rightarrow> world \<Rightarrow> world" where
  "startCapture n w =
     (if isCapturing (cs w) then reply FStartCapture (Thrown ''Already capturing'') w
      else if isPreviewing (cs w) then stopPreview (K_startCapture_stopPreview n) w
      else park (K_startCapture_checkDeviceAccess n) w)"

text \<open>The listeners and the timer callback of \<^verbatim>\<open>stopCapture\<close> (lines 454-486).\<close>

definition stopCaptureOnEnd :: "nat \<Rightarrow> world \<Rightarrow> world" where
  "stopCaptureOnEnd j w =
     (if \<not> isResolved j w then settleStop j (Fulfilled RetSuccess) w else w)"

definition stopCaptureOnError :: "nat \<Rightarrow> string \<Rightarrow> world \<Rightarrow> world" where
  "stopCaptureOnError j msg w =
     (if truthy msg \<and> str_includes msg ''signal 15''
      then (if \<not> isResolved j w then settleStop j (Fulfilled RetSuccess) w else w)
      else (if \<not> isResolved j w then settleStop j (Rejected msg) w else w))"

definition stopCaptureTimeout :: "nat \<Rightarrow> world \<Rightarrow> world" where
  "stopCaptureTimeout j w =
     (if \<not> isResolved j w then settleStop j (Fulfilled RetSuccess) w else w)"

text \<open>\<^verbatim>\<open>stopCapture\<close> (lines 442-488).\<close>

definition stopCapture :: "cont \<Rightarrow> world \<Rightarrow> world" where
  "stopCapture k w =
     (case ffmpegProcess (cs w) of
        None \<Rightarrow> enqueue k (Rejected ''Not capturing'') w
      | Some p \<Rightarrow>
          if \<not> isCapturing (cs w) then enqueue k (Rejected ''Not capturing'') w
          else (addListeners p (StopCaptureOnEnd (nextStop w)) (StopCaptureOnError (nextStop w))
                  (newStop StopCaptureCall 2000 k
                     (cs_update (\<lambda>c. c\<lparr>stopRequested := True\<rparr>) w)))
               \<lparr>kills := kills w @ [p]\<rparr>)"

text \<open>
  The route \<^verbatim>\<open>POST /api/capture/stop\<close> (lines 619-678): the call, lines 645-666 with
  the upload, and lines 625-642 after \<^verbatim>\<open>stopCapture\<close> is settled.
\<close>

definition postCaptureStop :: "world \<Rightarrow> world" where
  "postCaptureStop w =
     stopCapture (K_stopRoute_stopCapture (map_option recordingId (currentRecording (cs w)))) w"

definition stopRoute_upload :: "string \<Rightarrow> nat \<Rightarrow> world \<Rightarrow> world" where
  "stopRoute_upload rid endT w =
     (case currentRecording (cs w) of
        Some v \<Rightarrow>
          if truthy (filepath v) then uploadFile FromStopRoute (filepath v) rid endT w
          else finish FromStopRoute rid endT w
      | None \<Rightarrow> finish FromStopRoute rid endT w)"

definition stopRoute_settled :: "string option \<Rightarrow> settle \<Rightarrow> world \<Rightarrow> world" where
  "stopRoute_settled recId r w =
     (case r of
        Rejected m \<Rightarrow> reply FStopRoute (Thrown m) w
      | Fulfilled res \<Rightarrow>
          (case recId of
             Some rid \<Rightarrow>
               if res = RetSuccess \<and> truthy rid
               then (let endT = clock w;
                         dur = (case currentRecording (cs w) of
                                  Some v \<Rightarrow> of_int (int endT - int (startTime v)) / 1000
                                | None \<Rightarrow> 0)
                     in case videosCollection w of
                          Some vs \<Rightarrow>
                            park (K_stopRoute_updateOne rid endT)
                              (dbUpdateOne rid
                                 (\<lambda>v. v\<lparr>status := Completed, endTime := Some endT,
                                        duration := Some dur, updatedAt := clock w\<rparr>) w)
                        | None \<Rightarrow> stopRoute_upload rid endT w)
               else reply FStopRoute res w
           | None \<Rightarrow> reply FStopRoute res w))"

subsection \<open>Dispatch\<close>

text \<open>A listener applied to the arguments of its event.\<close>

fun fireStart :: "listener \<Rightarrow> world \<Rightarrow> world" where
  "fireStart PreviewOnStart w = previewOnStart w"
| "fireStart (CaptureOnStart rid startT) w = emit (CaptureStarted rid startT) w"
| "fireStart l w = w"

fun fireEnd :: "listener \<Rightarrow> world \<Rightarrow> world" where
  "fireEnd (StopPreviewOnEnd j) w = stopPreviewOnEnd j w"
| "fireEnd (CaptureOnEnd rid startT fp) w = captureOnEnd rid startT fp w"
| "fireEnd (StopCaptureOnEnd j) w = stopCaptureOnEnd j w"
| "fireEnd l w = w"

fun fireError :: "string \<Rightarrow> string option \<Rightarrow> listener \<Rightarrow> world \<Rightarrow> world" where
  "fireError msg stderr PreviewOnError w = previewOnError msg w"
| "fireError msg stderr (StopPreviewOnError j) w = stopPreviewOnError j msg w"
| "fireError msg stderr (CaptureOnError rid) w = captureOnError rid msg stderr w"
| "fireError msg stderr (StopCaptureOnError j) w = stopCaptureOnError j msg w"
| "fireError msg stderr l w = w"

text \<open>Code waiting for a settled promise.\<close>

fun resumeMicro :: "cont \<Rightarrow> settle \<Rightarrow> world \<Rightarrow> world" where
  "resumeMicro (K_startCapture_stopPreview n) r w = park (K_startCapture_checkDeviceAccess n) w"
| "resumeMicro K_previewStopRoute r w =
     (case r of
        Fulfilled res \<Rightarrow> reply FStopPreview res w
      | Rejected m \<Rightarrow> reply FStopPreview (Thrown m) w)"
| "resumeMicro (K_stopRoute_stopCapture recId) r w = stopRoute_settled recId r w"
| "resumeMicro (K_uploadFile c rid endT) r w = afterUpload c rid endT r w"
| "resumeMicro k r w = w"

text \<open>Code waiting for the answer of the store.\<close>

fun resumeDb :: "cont \<Rightarrow> world \<Rightarrow> world option" where
  "resumeDb (K_startCapture_insertOne v) w = Some (startCapture_launch v w)"
| "resumeDb (K_captureError_updateOne m) w = Some (emit (CaptureError m) w)"
| "resumeDb (K_captureEnd_updateOne fp rid endT) w = Some (uploadFile FromEndHandler fp rid endT w)"
| "resumeDb (K_stopRoute_updateOne rid endT) w = Some (stopRoute_upload rid endT w)"
| "resumeDb (K_upload_updateOne c rid endT loc) w =
     Some (afterUpload c rid endT (Fulfilled (RetLocation loc)) w)"
| "resumeDb (K_uploaded_updateOne c rid endT) w =
     Some (finish c rid endT (emit (UploadComplete rid) w))"
| "resumeDb (K_uploadError_updateOne c rid endT m) w =
     Some (finish c rid endT (emit (UploadError m) w))"
| "resumeDb (K_updateNotes b) w = Some (reply FUpdateNotes (RetBool b) w)"
| "resumeDb k w = None"

text \<open>Code waiting for a transfer.\<close>

fun resumeTransfer :: "cont \<Rightarrow> string + string \<Rightarrow> world \<Rightarrow> world option" where
  "resumeTransfer (K_uploadToSFTP c fp rid endT) r w = Some (uploadToSFTP c fp rid endT r w)"
| "resumeTransfer (K_uploadToS3 c fp rid endT) r w = Some (uploadToS3 c fp rid endT r w)"
| "resumeTransfer k r w = None"

text \<open>Code waiting for the device check.\<close>

fun resumeDevice :: "cont \<Rightarrow> (nat \<Rightarrow> string option) \<Rightarrow> string \<Rightarrow> world \<Rightarrow> world option" where
  "resumeDevice (K_startCapture_checkDeviceAccess n) probe uuid w =
     Some (startCapture_checked n probe uuid w)"
| "resumeDevice k probe uuid w = None"

definition dropTask :: "nat \<Rightarrow> world \<Rightarrow> world" where
  "dropTask t w = w\<lparr>tasks := (tasks w)(t := None)\<rparr>"

definition setPstate :: "nat \<Rightarrow> pstate \<Rightarrow> world \<Rightarrow> world" where
  "setPstate p st w =
     (case procs w p of
        Some pr \<Rightarrow> w\<lparr>procs := (procs w)(p \<mapsto> pr\<lparr>pstate := st\<rparr>)\<rparr>
      | None \<Rightarrow> w)"

text \<open>The route \<^verbatim>\<open>POST /api/capture/:recordingId/notes\<close> with \<^verbatim>\<open>updateNotes\<close>.\<close>

definition callUpdateNotes :: "string \<Rightarrow> string \<Rightarrow> world \<Rightarrow> world" where
  "callUpdateNotes rid n w =
     (case videosCollection w of
        Some vs \<Rightarrow>
          park (K_updateNotes (fst (updateNotes rid n (clock w) (Some vs))))
            (w\<lparr>videosCollection := snd (updateNotes rid n (clock w) (Some vs))\<rparr>)
      | None \<Rightarrow> reply FUpdateNotes (RetBool (fst (updateNotes rid n (clock w) None))) w)"

subsection \<open>Steps\<close>

text \<open>
  What can happen next: a request of a client, an event of a subprocess, a timer, the
  arrival of a result, the next piece of code waiting for a settled promise, and the
  passing of time. Code waiting for a settled promise runs before every other event,
  as Node.js runs microtasks. A timer fires no earlier than its delay and once.
\<close>

datatype event =
    CallStartPreview
  | CallStopPreview
  | CallStartCapture string
  | PostCaptureStop
  | CallUpdateNotes string string
  | ProcStart nat
  | ProcEnd nat
  | ProcError nat string "string option"
  | TimerFired nat
  | DeviceChecked nat "nat \<Rightarrow> string option" string
  | DbReplied nat
  | TransferDone nat "string + string"
  | Microtask
  | Tick nat

fun macro :: "event \<Rightarrow> world \<Rightarrow> world option" where
  "macro CallStartPreview w = Some (startPreview w)"
| "macro CallStopPreview w = Some (stopPreview K_previewStopRoute w)"
| "macro (CallStartCapture n) w = Some (startCapture n w)"
| "macro PostCaptureStop w = Some (postCaptureStop w)"
| "macro (CallUpdateNotes rid n) w = Some (callUpdateNotes rid n w)"
| "macro (ProcStart p) w =
     (case procs w p of
        Some pr \<Rightarrow>
          if pstate pr = Spawned then Some (fold fireStart (onStart pr) (setPstate p Running w))
          else None
      | None \<Rightarrow> None)"
| "macro (ProcEnd p) w =
     (case procs w p of
        Some pr \<Rightarrow>
          if pstate pr = Running then Some (fold fireEnd (onEnd pr) (setPstate p Exited w))
          else None
      | None \<Rightarrow> None)"
| "macro (ProcError p msg stderr) w =
     (case procs w p of
        Some pr \<Rightarrow>
          if pstate pr \<noteq> Exited
          then Some (fold (fireError msg stderr) (onError pr) (setPstate p Exited w))
          else None
      | None \<Rightarrow> None)"
| "macro (TimerFired j) w =
     (case stops w j of
        Some sc \<Rightarrow>
          if fired sc \<or> clock w < deadline sc then None
          else (let w1 = w\<lparr>stops := (stops w)(j \<mapsto> sc\<lparr>fired := True\<rparr>)\<rparr>
                in case kind sc of
                     StopPreviewCall \<Rightarrow> Some (stopPreviewTimeout j w1)
                   | StopCaptureCall \<Rightarrow> Some (stopCaptureTimeout j w1))
      | None \<Rightarrow> None)"
| "macro (DeviceChecked t probe uuid) w =
     (case tasks w t of
        Some k \<Rightarrow> resumeDevice k probe uuid (dropTask t w)
      | None \<Rightarrow> None)"
| "macro (DbReplied t) w =
     (case tasks w t of
        Some k \<Rightarrow> resumeDb k (dropTask t w)
      | None \<Rightarrow> None)"
| "macro (TransferDone t r) w =
     (case tasks w t of
        Some k \<Rightarrow> resumeTransfer k r (dropTask t w)
      | None \<Rightarrow> None)"
| "macro Microtask w = None"
| "macro (Tick n) w = None"

definition step :: "event \<Rightarrow> world \<Rightarrow> world option" where
  "step e w =
     (case e of
        Microtask \<Rightarrow>
          (case micro w of
             [] \<Rightarrow> None
           | kr # q \<Rightarrow> Some (resumeMicro (fst kr) (snd kr) (w\<lparr>micro := q\<rparr>)))
      | Tick n \<Rightarrow> Some (w\<lparr>clock := clock w + n\<rparr>)
      | _ \<Rightarrow> if micro w = [] then macro e w else None)"

fun run :: "event list \<Rightarrow> world \<Rightarrow> world option" where
  "run [] w = Some w"
| "run (e # es) w = (case step e w of None \<Rightarrow> None | Some w' \<Rightarrow> run es w')"

text \<open>
  The server after \<^verbatim>\<open>startServer\<close>: \<^verbatim>\<open>captureState\<close> as initialised in lines 93-99, the
  collection as \<^verbatim>\<open>connectToMongoDB\<close> left it.
\<close>

definition initial :: "config \<Rightarrow> video list option \<Rightarrow> world" where
  "initial c coll =
     \<lparr>cfg = c,
      cs = \<lparr>isCapturing = False, isPreviewing = False, currentRecording = None,
            ffmpegProcess = None, previewProcess = None, previewStopping = False,
            stopRequested = False\<rparr>,
      videosCollection = coll, emitted = [], replies = [], uploads = [], kills = [],
      procs = Map.empty, nextPid = 0, stops = Map.empty, nextStop = 0,
      tasks = Map.empty, nextTask = 0, micro = [], clock = 0\<rparr>"

text \<open>
  The configuration when no environment variable is set (lines 38-60), for a server
  installed in \<^verbatim>\<open>/app/server\<close>: \<^verbatim>\<open>path.join(__dirname, '../uploads')\<close> is then
  \<^verbatim>\<open>/app/uploads\<close>.
\<close>

definition defaults :: config where
  "defaults =
     \<lparr>UPLOADS_DIR = ''/app/uploads'', UPLOAD_METHOD = ''sftp'', SFTP_username = ''tom'',
      SFTP_host = ''localhost'', SFTP_uploadDir = ''/home/tom/videos''\<rparr>"

subsection \<open>Concrete inputs\<close>

text \<open>A device that answers every probe, and one that fails every probe with message \<open>m\<close>.\<close>

definition accessible :: "nat \<Rightarrow> string option" where
  "accessible n = None"

definition inaccessible :: "string \<Rightarrow> nat \<Rightarrow> string option" where
  "inaccessible m n = Some m"

text \<open>A stored session, as \<^verbatim>\<open>startCapture('x')\<close> at time 5 leaves it.\<close>

definition sessionA :: video where
  "sessionA =
     \<lparr>recordingId = ''a'', filename = ''a.mp4'', filepath = ''/app/uploads/a.mp4'',
      status = Recording, startTime = 5, notes = ''x'', createdAt = 5, updatedAt = 5,
      uploadedToRemote = False, error = None, endTime = None, duration = None,
      uploadError = None, sftpLocation = None, s3Location = None\<rparr>"

text \<open>The server right after start, connected to an empty collection.\<close>

definition fresh :: world where
  "fresh = initial defaults (Some [])"

text \<open>The server while previewing, and while recording session \<open>id1\<close>.\<close>

definition previewingWorld :: world where
  "previewingWorld =
     (case run [CallStartPreview, ProcStart 0] fresh of Some w \<Rightarrow> w | None \<Rightarrow> fresh)"

definition recordingWorld :: world where
  "recordingWorld =
     (case run [CallStartCapture ''n'', DeviceChecked 0 accessible ''id1'', DbReplied 1, ProcStart 0]
             fresh of
        Some w \<Rightarrow> w
      | None \<Rightarrow> fresh)"



subsection \<open>Observations\<close>

text \<open>The number of stored sessions in status \<^verbatim>\<open>recording\<close>.\<close>

definition recordingCount :: "world \<Rightarrow> nat" where
  "recordingCount w =
     (case videosCollection w of
        None \<Rightarrow> 0
      | Some vs \<Rightarrow> length (filter (\<lambda>v. status v = Recording) vs))"

text \<open>A subprocess is alive from its launch until it reports \<^verbatim>\<open>end\<close> or \<^verbatim>\<open>error\<close>.\<close>

definition alive :: "nat \<Rightarrow> world \<Rightarrow> bool" where
  "alive p w = (case procs w p of Some pr \<Rightarrow> pstate pr \<noteq> Exited | None \<Rightarrow> False)"


definition observe :: "world \<Rightarrow> notification list \<times> (fn \<times> outcome) list \<times> (string \<times> string) list" where
  "observe w = (emitted w, replies w, uploads w)"

section \<open>Properties\<close>

subsection \<open>The store\<close>

lemma set_notes_same:
  "(v\<lparr>notes := n, updatedAt := t\<rparr> = (v::video)) = (notes v = n \<and> updatedAt v = t)"
  by (cases v) auto

lemma updateOne_miss:
  "find (\<lambda>v. recordingId v = rid) vs = None \<Longrightarrow> updateOne rid f vs = (vs, 0)"
  by (induction vs) (auto split: if_splits)

lemma updateOne_count:
  "snd (updateOne rid f vs) =
     (case find (\<lambda>v. recordingId v = rid) vs of
        None \<Rightarrow> 0
      | Some v \<Rightarrow> if f v = v then 0 else 1)"
  by (induction vs) auto

lemma updateOne_hit:
  "find (\<lambda>v. recordingId v = rid) vs = Some v \<Longrightarrow> recordingId (f v) = rid \<Longrightarrow>
   find (\<lambda>v. recordingId v = rid) (fst (updateOne rid f vs)) = Some (f v)"
  by (induction vs) (auto split: if_splits)

lemma updateOne_twice:
  assumes "\<And>v. recordingId (f v) = recordingId v" and "\<And>v. g (f v) = g v"
  shows "fst (updateOne rid g (fst (updateOne rid f vs))) = fst (updateOne rid g vs)"
  using assms by (induction vs) auto

lemma updateOne_keeps:
  assumes "\<And>v. h (f v) = h v"
  shows "map h (fst (updateOne rid f vs)) = map h vs"
  using assms by (induction vs) auto

text \<open>
  Claim C9, corrected. \<^verbatim>\<open>updateNotes\<close> looks at no status; on a collection without a
  session of that id it returns false and leaves the collection as it is; calling it
  again with the same text leaves the collection as one call at the later time does;
  statuses and ids never change. Its result is \<^verbatim>\<open>modifiedCount > 0\<close>: true exactly when
  a session with that id exists and the write changed it, which is when its notes
  differ from the text or its \<^verbatim>\<open>updatedAt\<close> differs from the time of the call.
\<close>

theorem updateNotes_reports_modification:
  "fst (updateNotes rid n now (Some vs)) =
     (case find (\<lambda>v. recordingId v = rid) vs of
        None \<Rightarrow> False
      | Some v \<Rightarrow> notes v \<noteq> n \<or> updatedAt v \<noteq> now) \<and>
   (find (\<lambda>v. recordingId v = rid) vs = None \<longrightarrow>
      updateNotes rid n now (Some vs) = (False, Some vs)) \<and>
   (\<forall>v. find (\<lambda>v. recordingId v = rid) vs = Some v \<longrightarrow>
      (\<exists>vs'. snd (updateNotes rid n now (Some vs)) = Some vs' \<and>
             find (\<lambda>v. recordingId v = rid) vs' = Some (v\<lparr>notes := n, updatedAt := now\<rparr>))) \<and>
   updateNotes rid n now None = (False, None) \<and>
   snd (updateNotes rid n t2 (snd (updateNotes rid n t1 coll))) = snd (updateNotes rid n t2 coll) \<and>
   (\<exists>vs'. snd (updateNotes rid n now (Some vs)) = Some vs' \<and>
          map status vs' = map status vs \<and> map recordingId vs' = map recordingId vs)"
proof -
  have result: "fst (updateNotes rid n now (Some vs)) =
     (case find (\<lambda>v. recordingId v = rid) vs of
        None \<Rightarrow> False
      | Some v \<Rightarrow> notes v \<noteq> n \<or> updatedAt v \<noteq> now)"
    by (auto simp: updateNotes_def Let_def updateOne_count set_notes_same split: option.splits)
  have miss: "find (\<lambda>v. recordingId v = rid) vs = None \<longrightarrow>
      updateNotes rid n now (Some vs) = (False, Some vs)"
    by (simp add: updateNotes_def Let_def updateOne_miss)
  have hit: "\<forall>v. find (\<lambda>v. recordingId v = rid) vs = Some v \<longrightarrow>
      (\<exists>vs'. snd (updateNotes rid n now (Some vs)) = Some vs' \<and>
             find (\<lambda>v. recordingId v = rid) vs' = Some (v\<lparr>notes := n, updatedAt := now\<rparr>))"
  proof (intro allI impI)
    fix v
    assume f: "find (\<lambda>v. recordingId v = rid) vs = Some v"
    then have "recordingId v = rid"
      by (auto simp: find_Some_iff)
    then have "recordingId (v\<lparr>notes := n, updatedAt := now\<rparr>) = rid"
      by simp
    with f have "find (\<lambda>v. recordingId v = rid)
        (fst (updateOne rid (\<lambda>v. v\<lparr>notes := n, updatedAt := now\<rparr>) vs)) =
        Some (v\<lparr>notes := n, updatedAt := now\<rparr>)"
      by (rule updateOne_hit)
    then show "\<exists>vs'. snd (updateNotes rid n now (Some vs)) = Some vs' \<and>
        find (\<lambda>v. recordingId v = rid) vs' = Some (v\<lparr>notes := n, updatedAt := now\<rparr>)"
      by (simp add: updateNotes_def Let_def)
  qed
  have none: "updateNotes rid n now None = (False, None)"
    by (simp add: updateNotes_def)
  have twice: "snd (updateNotes rid n t2 (snd (updateNotes rid n t1 coll))) =
      snd (updateNotes rid n t2 coll)"
    by (cases coll) (simp_all add: updateNotes_def Let_def updateOne_twice)
  have keeps: "\<exists>vs'. snd (updateNotes rid n now (Some vs)) = Some vs' \<and>
          map status vs' = map status vs \<and> map recordingId vs' = map recordingId vs"
    by (simp add: updateNotes_def Let_def updateOne_keeps)
  from result miss hit none twice keeps show ?thesis by blast
qed

theorem updateNotes_reports_modification_witness:
  "fst (updateNotes ''a'' ''y'' 9 (Some [sessionA])) \<and>
   find (\<lambda>v. recordingId v = ''b'') [sessionA] = None \<and>
   updateNotes ''b'' ''y'' 9 (Some [sessionA]) = (False, Some [sessionA]) \<and>
   find (\<lambda>v. recordingId v = ''a'') [sessionA] = Some sessionA \<and>
   snd (updateNotes ''a'' ''y'' 9 (Some [sessionA])) = Some [sessionA\<lparr>notes := ''y'', updatedAt := 9\<rparr>]"
  using updateNotes_reports_modification [of "''a''" "''y''" 9 "[sessionA]"]
    updateNotes_reports_modification [of "''b''" "''y''" 9 "[sessionA]"]
  by (simp add: sessionA_def updateNotes_def)

theorem updateNotes_result_counterexample:
  "find (\<lambda>v. recordingId v = ''a'') [sessionA] = Some sessionA \<and>
   fst (updateNotes ''a'' ''x'' 5 (Some [sessionA])) = False"
  by (simp add: sessionA_def updateNotes_def)

subsection \<open>Where the previewing flag is set\<close>

text \<open>
  No code but the \<^verbatim>\<open>start\<close> listener of the preview subprocess sets
  \<^verbatim>\<open>captureState.isPreviewing\<close> to true.
\<close>

lemma afterUpload_isPreviewing: "isPreviewing (cs (afterUpload c rid endT r w)) = isPreviewing (cs w)"
  by (cases c) (simp_all add: afterUpload_def finish_def emit_def reply_def park_def dbUpdateOne_def
      split: settle.splits option.splits)

lemma uploadFile_isPreviewing: "isPreviewing (cs (uploadFile c fp rid endT w)) = isPreviewing (cs w)"
  by (simp add: uploadFile_def park_def enqueue_def Let_def)

lemma settleStop_isPreviewing: "isPreviewing (cs (settleStop j r w)) = isPreviewing (cs w)"
  by (simp add: settleStop_def enqueue_def split: option.splits)

lemma fireEnd_isPreviewing: "isPreviewing (cs (fireEnd l w)) \<Longrightarrow> isPreviewing (cs w)"
  by (cases l) (simp_all add: stopPreviewOnEnd_def captureOnEnd_def stopCaptureOnEnd_def settleStop_isPreviewing
      uploadFile_isPreviewing emit_def park_def dbUpdateOne_def Let_def split: if_splits option.splits)

lemma fireError_isPreviewing: "isPreviewing (cs (fireError msg stderr l w)) \<Longrightarrow> isPreviewing (cs w)"
  by (cases l) (simp_all add: previewOnError_def stopPreviewOnError_def captureOnError_def stopCaptureOnError_def
      settleStop_isPreviewing emit_def park_def dbUpdateOne_def Let_def split: if_splits option.splits)

lemma fold_isPreviewing:
  assumes "\<And>l w. isPreviewing (cs (f l w)) \<Longrightarrow> isPreviewing (cs w)"
  shows "isPreviewing (cs (fold f ls w)) \<Longrightarrow> isPreviewing (cs w)"
proof (induction ls arbitrary: w)
  case Nil
  then show ?case by simp
next
  case (Cons l ls)
  from Cons.prems have "isPreviewing (cs (fold f ls (f l w)))" by simp
  then have "isPreviewing (cs (f l w))" by (rule Cons.IH)
  then show ?case by (rule assms)
qed

lemma setPstate_isPreviewing: "isPreviewing (cs (setPstate p st w)) = isPreviewing (cs w)"
  by (simp add: setPstate_def split: option.splits)

lemma stopPreview_isPreviewing: "isPreviewing (cs (stopPreview k w)) = isPreviewing (cs w)"
  by (simp add: stopPreview_def enqueue_def addListeners_def newStop_def split: option.splits)

lemma stopCapture_isPreviewing: "isPreviewing (cs (stopCapture k w)) = isPreviewing (cs w)"
  by (simp add: stopCapture_def enqueue_def addListeners_def newStop_def split: option.splits)

lemma startCapture_launch_isPreviewing: "isPreviewing (cs (startCapture_launch v w)) = isPreviewing (cs w)"
  by (simp add: startCapture_launch_def reply_def launch_def)

lemma stopRoute_upload_isPreviewing: "isPreviewing (cs (stopRoute_upload rid endT w)) = isPreviewing (cs w)"
  by (simp add: stopRoute_upload_def uploadFile_isPreviewing finish_def reply_def emit_def split: option.splits)

lemma resumeMicro_isPreviewing: "isPreviewing (cs (resumeMicro k r w)) = isPreviewing (cs w)"
  by (cases k) (simp_all add: park_def reply_def stopRoute_settled_def afterUpload_isPreviewing stopRoute_upload_isPreviewing
      dbUpdateOne_def Let_def split: settle.splits option.splits)

lemma finish_isPreviewing: "isPreviewing (cs (finish c rid endT w)) = isPreviewing (cs w)"
  by (cases c) (simp_all add: finish_def emit_def reply_def)

lemma resumeDb_isPreviewing: "resumeDb k w = Some w' \<Longrightarrow> isPreviewing (cs w') = isPreviewing (cs w)"
  by (cases k) (auto simp: startCapture_launch_isPreviewing emit_def uploadFile_isPreviewing stopRoute_upload_isPreviewing afterUpload_isPreviewing finish_isPreviewing reply_def)

lemma resumeTransfer_isPreviewing: "resumeTransfer k r w = Some w' \<Longrightarrow> isPreviewing (cs w') = isPreviewing (cs w)"
  by (cases k) (auto simp: uploadToSFTP_def uploadToS3_def afterUpload_isPreviewing park_def dbUpdateOne_def Let_def
      split: sum.splits option.splits)

lemma resumeDevice_isPreviewing: "resumeDevice k probe uuid w = Some w' \<Longrightarrow> isPreviewing (cs w') = isPreviewing (cs w)"
  by (cases k) (auto simp: startCapture_checked_def startCapture_create_def startCapture_launch_isPreviewing reply_def
      park_def Let_def split: sum.splits option.splits)

lemma macro_ProcEnd_isPreviewing:
  assumes "macro (ProcEnd p) w = Some w'" "isPreviewing (cs w')"
  shows "isPreviewing (cs w)"
proof (cases "procs w p")
  case None
  with assms show ?thesis by simp
next
  case (Some pr)
  with assms(1) have w': "w' = fold fireEnd (onEnd pr) (setPstate p Exited w)"
    by (simp split: if_splits)
  from assms(2) have "isPreviewing (cs (setPstate p Exited w))"
    unfolding w' by (rule fold_isPreviewing[rotated]) (rule fireEnd_isPreviewing)
  then show ?thesis by (simp add: setPstate_isPreviewing)
qed

lemma macro_ProcError_isPreviewing:
  assumes "macro (ProcError p msg stderr) w = Some w'" "isPreviewing (cs w')"
  shows "isPreviewing (cs w)"
proof (cases "procs w p")
  case None
  with assms show ?thesis by simp
next
  case (Some pr)
  with assms(1) have w': "w' = fold (fireError msg stderr) (onError pr) (setPstate p Exited w)"
    by (simp split: if_splits)
  from assms(2) have "isPreviewing (cs (setPstate p Exited w))"
    unfolding w' by (rule fold_isPreviewing[rotated]) (rule fireError_isPreviewing)
  then show ?thesis by (simp add: setPstate_isPreviewing)
qed

lemma macro_isPreviewing:
  assumes "macro e w = Some w'" "isPreviewing (cs w')" "\<not> isPreviewing (cs w)"
  shows "\<exists>p. e = ProcStart p"
proof (cases e)
  case CallStartPreview
  with assms show ?thesis by (auto simp: startPreview_def reply_def launch_def split: if_splits)
next
  case CallStopPreview
  with assms show ?thesis by (auto simp: stopPreview_isPreviewing)
next
  case (CallStartCapture n)
  with assms show ?thesis by (auto simp: startCapture_def stopPreview_isPreviewing reply_def park_def split: if_splits)
next
  case PostCaptureStop
  with assms show ?thesis by (auto simp: postCaptureStop_def stopCapture_isPreviewing)
next
  case (CallUpdateNotes rid n)
  with assms show ?thesis by (auto simp: callUpdateNotes_def park_def reply_def split: option.splits)
next
  case (ProcStart p)
  then show ?thesis by simp
next
  case (ProcEnd p)
  from assms(1,2) have "isPreviewing (cs w)"
    unfolding ProcEnd by (rule macro_ProcEnd_isPreviewing)
  with assms(3) show ?thesis by simp
next
  case (ProcError p msg stderr)
  from assms(1,2) have "isPreviewing (cs w)"
    unfolding ProcError by (rule macro_ProcError_isPreviewing)
  with assms(3) show ?thesis by simp
next
  case (TimerFired j)
  with assms show ?thesis
    by (auto simp: Let_def stopPreviewTimeout_def stopCaptureTimeout_def settleStop_isPreviewing
        split: option.splits if_splits stopKind.splits)
next
  case (DeviceChecked t probe uuid)
  with assms show ?thesis by (auto simp: dropTask_def split: option.splits dest!: resumeDevice_isPreviewing)
next
  case (DbReplied t)
  with assms show ?thesis by (auto simp: dropTask_def split: option.splits dest!: resumeDb_isPreviewing)
next
  case (TransferDone t r)
  with assms show ?thesis by (auto simp: dropTask_def split: option.splits dest!: resumeTransfer_isPreviewing)
next
  case Microtask
  with assms show ?thesis by simp
next
  case (Tick n)
  with assms show ?thesis by simp
qed

lemma step_isPreviewing:
  assumes "step e w = Some w'" "isPreviewing (cs w')" "\<not> isPreviewing (cs w)"
  shows "\<exists>p. e = ProcStart p"
proof (cases "e = Microtask \<or> (\<exists>n. e = Tick n)")
  case True
  with assms show ?thesis
    by (auto simp: step_def resumeMicro_isPreviewing split: list.splits)
next
  case False
  with assms have "macro e w = Some w'"
    by (cases e) (auto simp: step_def split: if_splits)
  from this assms(2,3) show ?thesis by (rule macro_isPreviewing)
qed

text \<open>
  Claim C10. Called while neither previewing nor capturing, \<^verbatim>\<open>startPreview\<close> launches the
  subprocess and returns success with \<^verbatim>\<open>isPreviewing\<close> still false. The flag becomes
  true in the \<^verbatim>\<open>start\<close> listener, and no step other than a \<^verbatim>\<open>start\<close> event of a
  subprocess makes it true. Until then the state check of a second \<^verbatim>\<open>startPreview\<close>
  passes, and \<^verbatim>\<open>startCapture\<close> goes to the device check without stopping the pending
  preview.
\<close>

theorem startPreview_returns_before_started:
  assumes "\<not> isPreviewing (cs w)" and "\<not> isCapturing (cs w)"
  shows "replies (startPreview w) = replies w @ [(FStartPreview, RetSuccess)] \<and>
    previewProcess (cs (startPreview w)) = Some (nextPid w) \<and>
    procs (startPreview w) (nextPid w) =
      Some \<lparr>pstate = Spawned, onStart = [PreviewOnStart], onError = [PreviewOnError], onEnd = []\<rparr> \<and>
    \<not> isPreviewing (cs (startPreview w)) \<and>
    isPreviewing (cs (previewOnStart (startPreview w))) \<and>
    (\<forall>e w1 w2. \<not> isPreviewing (cs w1) \<and> step e w1 = Some w2 \<and> isPreviewing (cs w2) \<longrightarrow>
       (\<exists>p. e = ProcStart p)) \<and>
    replies (startPreview (startPreview w)) =
      replies w @ [(FStartPreview, RetSuccess), (FStartPreview, RetSuccess)] \<and>
    tasks (startCapture n (startPreview w)) (nextTask w) = Some (K_startCapture_checkDeviceAccess n) \<and>
    nextStop (startCapture n (startPreview w)) = nextStop w \<and>
    kills (startCapture n (startPreview w)) = kills w"
proof -
  have only: "\<forall>e w1 w2. \<not> isPreviewing (cs w1) \<and> step e w1 = Some w2 \<and> isPreviewing (cs w2) \<longrightarrow>
       (\<exists>p. e = ProcStart p)"
    using step_isPreviewing by blast
  from assms have
    "replies (startPreview w) = replies w @ [(FStartPreview, RetSuccess)] \<and>
     previewProcess (cs (startPreview w)) = Some (nextPid w) \<and>
     procs (startPreview w) (nextPid w) =
       Some \<lparr>pstate = Spawned, onStart = [PreviewOnStart], onError = [PreviewOnError], onEnd = []\<rparr> \<and>
     \<not> isPreviewing (cs (startPreview w)) \<and>
     isPreviewing (cs (previewOnStart (startPreview w))) \<and>
     replies (startPreview (startPreview w)) =
       replies w @ [(FStartPreview, RetSuccess), (FStartPreview, RetSuccess)] \<and>
     tasks (startCapture n (startPreview w)) (nextTask w) = Some (K_startCapture_checkDeviceAccess n) \<and>
     nextStop (startCapture n (startPreview w)) = nextStop w \<and>
     kills (startCapture n (startPreview w)) = kills w"
    by (simp add: startPreview_def reply_def launch_def startCapture_def park_def
        previewOnStart_def emit_def)
  with only show ?thesis by blast
qed

theorem startPreview_returns_before_started_witness:
  "\<not> isPreviewing (cs fresh) \<and> \<not> isCapturing (cs fresh) \<and>
   replies (startPreview fresh) = [(FStartPreview, RetSuccess)] \<and>
   \<not> isPreviewing (cs (startPreview fresh)) \<and>
   replies (startPreview (startPreview fresh)) =
     [(FStartPreview, RetSuccess), (FStartPreview, RetSuccess)] \<and>
   kills (startCapture ''n'' (startPreview fresh)) = []"
proof -
  have idle: "\<not> isPreviewing (cs fresh)" "\<not> isCapturing (cs fresh)"
    by (simp_all add: fresh_def initial_def)
  have logs: "replies fresh = []" "kills fresh = []"
    by (simp_all add: fresh_def initial_def)
  from startPreview_returns_before_started [OF idle, of "''n''"] idle logs
  show ?thesis by simp
qed

subsection \<open>Errors of the recording subprocess\<close>




text \<open>
  Claim C4, corrected. The \<^verbatim>\<open>error\<close> listener of the preview emits \<^verbatim>\<open>previewError\<close>
  exactly when \<^verbatim>\<open>previewStopping\<close> is not set. The \<^verbatim>\<open>error\<close> listener of the recording
  does not look at \<^verbatim>\<open>stopRequested\<close>: it goes by the text of stderr. An error whose
  stderr contains \<^verbatim>\<open>Exiting normally, received signal 15\<close> changes nothing and emits
  nothing; every other error leads to one \<^verbatim>\<open>captureError\<close>, at once when there is no
  collection and after the answer of the store otherwise, whether a stop was requested or
  not. The \<^verbatim>\<open>error\<close> listeners of \<^verbatim>\<open>stopPreview\<close> and \<^verbatim>\<open>stopCapture\<close> emit no error
  notification.
\<close>

theorem error_notification_rule:
  "emitted (previewOnError msg w) =
     (if previewStopping (cs w) then emitted w else emitted w @ [PreviewError msg]) \<and>
   (normalTermination stderr \<longrightarrow> captureOnError rid msg stderr w = w) \<and>
   (\<not> normalTermination stderr \<and> videosCollection w = None \<longrightarrow>
      emitted (captureOnError rid msg stderr w) =
        emitted w @ [CaptureError (errorMsgOf msg stderr)]) \<and>
   (\<not> normalTermination stderr \<and> videosCollection w \<noteq> None \<longrightarrow>
      emitted (captureOnError rid msg stderr w) = emitted w \<and>
      tasks (captureOnError rid msg stderr w) (nextTask w) =
        Some (K_captureError_updateOne (errorMsgOf msg stderr))) \<and>
   resumeDb (K_captureError_updateOne m) w = Some (emit (CaptureError m) w) \<and>
   emitted (emit (CaptureError m) w) = emitted w @ [CaptureError m] \<and>
   emitted (stopCaptureOnError j msg w) = emitted w \<and>
   emitted (stopPreviewOnError j msg w) =
     (if isResolved j w then emitted w else emitted w @ [PreviewStopped])"
  by (auto simp: previewOnError_def captureOnError_def emit_def Let_def park_def dbUpdateOne_def
      stopCaptureOnError_def stopPreviewOnError_def settleStop_def enqueue_def isResolved_def
      split: option.splits)

theorem error_notification_rule_witness:
  "normalTermination (Some ''Exiting normally, received signal 15'') \<and>
   captureOnError ''id1'' ''killed'' (Some ''Exiting normally, received signal 15'') recordingWorld =
     recordingWorld \<and>
   \<not> normalTermination None \<and> videosCollection recordingWorld \<noteq> None \<and>
   tasks (captureOnError ''id1'' ''boom'' None recordingWorld) 2 =
     Some (K_captureError_updateOne (errorMsgOf ''boom'' None)) \<and>
   emitted (previewOnError ''boom'' previewingWorld) = [PreviewStarted, PreviewError ''boom'']"
proof -
  have n: "normalTermination (Some ''Exiting normally, received signal 15'')"
    by code_simp
  have ab: "\<not> normalTermination None"
    by (simp add: normalTermination_def)
  have db: "videosCollection recordingWorld \<noteq> None"
    by code_simp
  have obs: "nextTask recordingWorld = 2" "\<not> previewStopping (cs previewingWorld)"
      "emitted previewingWorld = [PreviewStarted]"
    by code_simp+
  from error_notification_rule
         [of "''killed''" recordingWorld "Some ''Exiting normally, received signal 15''" "''id1''"] n
  have a: "captureOnError ''id1'' ''killed'' (Some ''Exiting normally, received signal 15'')
      recordingWorld = recordingWorld"
    by blast
  from error_notification_rule [of "''boom''" recordingWorld None "''id1''"] ab db obs
  have b: "tasks (captureOnError ''id1'' ''boom'' None recordingWorld) 2 =
      Some (K_captureError_updateOne (errorMsgOf ''boom'' None))"
    by simp
  from error_notification_rule [of "''boom''" previewingWorld] obs
  have c: "emitted (previewOnError ''boom'' previewingWorld) = [PreviewStarted, PreviewError ''boom'']"
    by simp
  from n a ab db b c show ?thesis by blast
qed

theorem stopping_error_counterexample:
  "map_option (stopRequested \<circ> cs)
     (run [CallStartCapture ''n'', DeviceChecked 0 accessible ''id1'', DbReplied 1, ProcStart 0,
           PostCaptureStop] fresh) = Some True \<and>
   map_option emitted
     (run [CallStartCapture ''n'', DeviceChecked 0 accessible ''id1'', DbReplied 1, ProcStart 0,
           PostCaptureStop, ProcError 0 ''boom'' None, Microtask, DbReplied 2] fresh) =
     Some [CaptureStarted ''id1'' 0, CaptureError (errorMsgOf ''boom'' None)] \<and>
   map_option (stopRequested \<circ> cs)
     (run [CallStartCapture ''n'', DeviceChecked 0 accessible ''id1'', DbReplied 1, ProcStart 0]
        fresh) = Some False \<and>
   map_option emitted
     (run [CallStartCapture ''n'', DeviceChecked 0 accessible ''id1'', DbReplied 1, ProcStart 0,
           ProcError 0 ''killed'' (Some ''Exiting normally, received signal 15'')] fresh) =
     Some [CaptureStarted ''id1'' 0]"
  by code_simp

subsection \<open>Upload Dispatcher\<close>

text \<open>
  Claim C8, corrected. \<^verbatim>\<open>uploadFile\<close> itself writes nothing, and a failed transfer hands
  control to the \<^verbatim>\<open>catch\<close> of the caller without a write. After a successful
  transfer, however, \<^verbatim>\<open>uploadToSFTP\<close> and \<^verbatim>\<open>uploadToS3\<close> write to the session
  themselves: the location, \<^verbatim>\<open>uploadedToRemote = true\<close> and \<^verbatim>\<open>updatedAt\<close>. They leave
  status, start and end time, duration, notes and the upload error as they are.
\<close>

theorem dispatcher_writes_location:
  "videosCollection (uploadFile c fp rid endT w) = videosCollection w \<and>
   uploads (uploadFile c fp rid endT w) = uploads w @ [(fp, rid)] \<and>
   uploadToSFTP c fp rid endT (Inl m) w = afterUpload c rid endT (Rejected m) w \<and>
   uploadToS3 c fp rid endT (Inl m) w = afterUpload c rid endT (Rejected m) w \<and>
   (videosCollection w = Some vs \<longrightarrow>
      videosCollection (uploadToSFTP c fp rid endT (Inr x) w) =
        Some (fst (updateOne rid
          (\<lambda>v. v\<lparr>sftpLocation :=
                   Some (''sftp://'' @ SFTP_username (cfg w) @ ''@'' @ SFTP_host (cfg w) @
                         SFTP_uploadDir (cfg w) @ ''/'' @ rid @ ''/'' @ basename fp),
                 uploadedToRemote := True, updatedAt := clock w\<rparr>) vs)) \<and>
      videosCollection (uploadToS3 c fp rid endT (Inr loc) w) =
        Some (fst (updateOne rid
          (\<lambda>v. v\<lparr>s3Location := Some loc, uploadedToRemote := True, updatedAt := clock w\<rparr>) vs)) \<and>
      (\<forall>vs'. videosCollection (uploadToSFTP c fp rid endT (Inr x) w) = Some vs' \<or>
             videosCollection (uploadToS3 c fp rid endT (Inr loc) w) = Some vs' \<longrightarrow>
         map status vs' = map status vs \<and> map startTime vs' = map startTime vs \<and>
         map endTime vs' = map endTime vs \<and> map duration vs' = map duration vs \<and>
         map notes vs' = map notes vs \<and> map uploadError vs' = map uploadError vs))"
  by (auto simp: uploadFile_def park_def enqueue_def Let_def uploadToSFTP_def uploadToS3_def
      dbUpdateOne_def updateOne_keeps)

theorem dispatcher_writes_location_witness:
  "videosCollection (initial defaults (Some [sessionA])) = Some [sessionA] \<and>
   videosCollection
     (uploadToS3 FromStopRoute ''/app/uploads/a.mp4'' ''a'' 9 (Inr ''https://bucket/a.mp4'')
        (initial defaults (Some [sessionA]))) =
     Some [sessionA\<lparr>s3Location := Some ''https://bucket/a.mp4'', uploadedToRemote := True,
                    updatedAt := 0\<rparr>]"
proof -
  have db: "videosCollection (initial defaults (Some [sessionA])) = Some [sessionA]"
    by (simp add: initial_def)
  have t: "clock (initial defaults (Some [sessionA])) = 0"
    by (simp add: initial_def)
  from dispatcher_writes_location
         [of FromStopRoute "''/app/uploads/a.mp4''" "''a''" 9 "initial defaults (Some [sessionA])"
            _ "[sessionA]" _ "''https://bucket/a.mp4''"] db t
  show ?thesis by (simp add: sessionA_def)
qed

theorem dispatcher_writes_counterexample:
  "map sftpLocation [sessionA] = [None] \<and>
   map_option (map sftpLocation)
     (videosCollection
        (uploadToSFTP FromStopRoute ''/app/uploads/a.mp4'' ''a'' 9 (Inr [])
           (initial defaults (Some [sessionA])))) =
     Some [Some ''sftp://tom@localhost/home/tom/videos/a/a.mp4'']"
  by code_simp

subsection \<open>Starting a recording\<close>

lemma run_append:
  "run (es @ es') w = (case run es w of None \<Rightarrow> None | Some w' \<Rightarrow> run es' w')"
  by (induction es arbitrary: w) (simp_all split: option.splits)

lemma checkDeviceAccess_three:
  "checkDeviceAccess probe 3 =
     (case probe 1 of
        None \<Rightarrow> Inr True
      | Some m1 \<Rightarrow>
          (case probe 2 of
             None \<Rightarrow> Inr True
           | Some m2 \<Rightarrow>
               (case probe 3 of
                  None \<Rightarrow> Inr True
                | Some m3 \<Rightarrow> Inl (''Device is busy or inaccessible: '' @ m3))))"
  by (simp add: checkDeviceAccess_def numeral_2_eq_2 numeral_3_eq_3 split: option.splits)

lemmas startCapture_defs =
  step_def startCapture_def stopPreview_def addListeners_def newStop_def setPstate_def
  stopPreviewOnEnd_def stopPreviewOnError_def stopPreviewTimeout_def previewOnError_def
  isResolved_def settleStop_def enqueue_def emit_def park_def dropTask_def
  startCapture_checked_def startCapture_create_def startCapture_launch_def launch_def
  reply_def alive_def Let_def




subsection \<open>Subprocesses that have exited\<close>



























subsection \<open>Starting a recording while previewing\<close>







text \<open>
  Three orders of events in which nothing else happens during the call and no other
  stop of the preview is under way: the subprocess in \<^verbatim>\<open>previewProcess\<close> reports
  \<^verbatim>\<open>end\<close>, or \<^verbatim>\<open>error\<close>, or the timer fires first.
\<close>

lemma startCapture_from_preview_schedules:
  assumes "micro w = []" and "isPreviewing (cs w)" and "\<not> isCapturing (cs w)"
    and "previewProcess (cs w) = Some p" and "procs w p = Some pr" and "pstate pr = Running"
    and "onEnd pr = []" and "onError pr = [PreviewOnError]" and "p < nextPid w"
    and "checkDeviceAccess probe 3 = Inr True"
  shows "(\<exists>w3 w4 w5.
        run [CallStartCapture n, ProcEnd p, Microtask] w = Some w3 \<and>
        step (DeviceChecked (nextTask w) probe uuid) w3 = Some w4 \<and>
        (if videosCollection w = None then Some w4
         else step (DbReplied (Suc (nextTask w))) w4) = Some w5 \<and>
        kills w3 = kills w @ [p] \<and> nextStop w3 = Suc (nextStop w) \<and> nextPid w3 = nextPid w \<and>
        \<not> isPreviewing (cs w3) \<and> \<not> isCapturing (cs w3) \<and> emitted w3 = emitted w @ [PreviewStopped] \<and> \<not> alive p w3 \<and>
        kills w5 = kills w @ [p] \<and> nextStop w5 = Suc (nextStop w) \<and>
        nextPid w5 = Suc (nextPid w) \<and> ffmpegProcess (cs w5) = Some (nextPid w) \<and>
        alive (nextPid w) w5 \<and> \<not> alive p w5 \<and> isCapturing (cs w5) \<and> \<not> isPreviewing (cs w5) \<and>
        replies w5 = replies w @ [(FStartCapture, RetCapture uuid (clock w))]) \<and>
     (\<exists>w3 w4 w5.
        run [CallStartCapture n, ProcError p msg stderr, Microtask] w = Some w3 \<and>
        step (DeviceChecked (nextTask w) probe uuid) w3 = Some w4 \<and>
        (if videosCollection w = None then Some w4
         else step (DbReplied (Suc (nextTask w))) w4) = Some w5 \<and>
        kills w3 = kills w @ [p] \<and> nextStop w3 = Suc (nextStop w) \<and> nextPid w3 = nextPid w \<and>
        \<not> isPreviewing (cs w3) \<and> \<not> isCapturing (cs w3) \<and> emitted w3 = emitted w @ [PreviewStopped] \<and> \<not> alive p w3 \<and>
        kills w5 = kills w @ [p] \<and> nextStop w5 = Suc (nextStop w) \<and>
        nextPid w5 = Suc (nextPid w) \<and> ffmpegProcess (cs w5) = Some (nextPid w) \<and>
        alive (nextPid w) w5 \<and> \<not> alive p w5 \<and> isCapturing (cs w5) \<and> \<not> isPreviewing (cs w5) \<and>
        replies w5 = replies w @ [(FStartCapture, RetCapture uuid (clock w))]) \<and>
     (\<exists>w3 w4 w5.
        run [CallStartCapture n, Tick 1000, TimerFired (nextStop w), Microtask] w = Some w3 \<and>
        step (DeviceChecked (nextTask w) probe uuid) w3 = Some w4 \<and>
        (if videosCollection w = None then Some w4
         else step (DbReplied (Suc (nextTask w))) w4) = Some w5 \<and>
        kills w3 = kills w @ [p] \<and> nextStop w3 = Suc (nextStop w) \<and> nextPid w3 = nextPid w \<and>
        \<not> isPreviewing (cs w3) \<and> \<not> isCapturing (cs w3) \<and> emitted w3 = emitted w \<and>
        kills w5 = kills w @ [p] \<and> nextStop w5 = Suc (nextStop w) \<and>
        nextPid w5 = Suc (nextPid w) \<and> ffmpegProcess (cs w5) = Some (nextPid w) \<and>
        alive (nextPid w) w5 \<and> isCapturing (cs w5) \<and> \<not> isPreviewing (cs w5) \<and>
        replies w5 = replies w @ [(FStartCapture, RetCapture uuid (clock w + 1000))])"
proof (cases "videosCollection w")
  case None
  with assms show ?thesis by (simp add: startCapture_defs)
next
  case (Some vs)
  with assms show ?thesis by (simp add: startCapture_defs)
qed

lemma startCapture_from_preview_run:
  "isPreviewing (cs previewingWorld) \<and> \<not> isCapturing (cs previewingWorld) \<and>
   previewProcess (cs previewingWorld) = Some 0 \<and>
   checkDeviceAccess accessible 3 = Inr True \<and>
   (\<exists>w5. run [CallStartCapture ''n'', ProcEnd 0, Microtask, DeviceChecked 0 accessible ''id1'',
              DbReplied 1] previewingWorld = Some w5 \<and>
         kills w5 = [0] \<and> \<not> alive 0 w5 \<and> alive 1 w5 \<and>
         isCapturing (cs w5) \<and> \<not> isPreviewing (cs w5) \<and>
         replies w5 = [(FStartPreview, RetSuccess), (FStartCapture, RetCapture ''id1'' 0)])"
proof -
  define pr where
    "pr = \<lparr>pstate = Running, onStart = [PreviewOnStart], onError = [PreviewOnError], onEnd = []\<rparr>"
  have q: "micro previewingWorld = []"
    by code_simp
  have st: "isPreviewing (cs previewingWorld)" "\<not> isCapturing (cs previewingWorld)"
      "previewProcess (cs previewingWorld) = Some 0"
    by code_simp+
  have p: "procs previewingWorld 0 = Some pr"
    unfolding pr_def by code_simp
  have prs: "pstate pr = Running" "onEnd pr = []" "onError pr = [PreviewOnError]"
    by (simp_all add: pr_def)
  have n: "0 < nextPid previewingWorld"
    by code_simp
  have dev: "checkDeviceAccess accessible 3 = Inr True"
    by (simp add: checkDeviceAccess_three accessible_def)
  have obs: "nextTask previewingWorld = 0" "nextPid previewingWorld = 1"
      "kills previewingWorld = []" "replies previewingWorld = [(FStartPreview, RetSuccess)]"
      "clock previewingWorld = 0" "videosCollection previewingWorld \<noteq> None"
    by code_simp+
  from startCapture_from_preview_schedules [OF q st p prs n dev, of "''n''" "''id1''"]
  obtain w3 w4 w5 where
    r: "run [CallStartCapture ''n'', ProcEnd 0, Microtask] previewingWorld = Some w3"
      "step (DeviceChecked (nextTask previewingWorld) accessible ''id1'') w3 = Some w4"
      "(if videosCollection previewingWorld = None then Some w4
        else step (DbReplied (Suc (nextTask previewingWorld))) w4) = Some w5"
    and k: "kills w5 = kills previewingWorld @ [0]" "\<not> alive 0 w5"
      "alive (nextPid previewingWorld) w5" "isCapturing (cs w5)" "\<not> isPreviewing (cs w5)"
      "replies w5 = replies previewingWorld @
         [(FStartCapture, RetCapture ''id1'' (clock previewingWorld))]"
    by blast
  from r obs have
    "run ([CallStartCapture ''n'', ProcEnd 0, Microtask] @
          [DeviceChecked 0 accessible ''id1'', DbReplied 1]) previewingWorld = Some w5"
    unfolding run_append by simp
  with k obs have "\<exists>w5. run [CallStartCapture ''n'', ProcEnd 0, Microtask,
              DeviceChecked 0 accessible ''id1'', DbReplied 1] previewingWorld = Some w5 \<and>
         kills w5 = [0] \<and> \<not> alive 0 w5 \<and> alive 1 w5 \<and>
         isCapturing (cs w5) \<and> \<not> isPreviewing (cs w5) \<and>
         replies w5 = [(FStartPreview, RetSuccess), (FStartCapture, RetCapture ''id1'' 0)]"
    by simp
  with st dev show ?thesis by blast
qed




text \<open>
  Claim C1, at the failing input. Two requests to start a capture, the second arriving
  while the first waits for the device check: both pass the check of \<^verbatim>\<open>isCapturing\<close>,
  both insert a session in status \<^verbatim>\<open>recording\<close>, and both return a recording id.
\<close>

theorem two_sessions_recording:
  "map_option recordingCount
     (run [CallStartCapture ''a'', CallStartCapture ''b'', DeviceChecked 0 accessible ''id1'',
           DeviceChecked 1 accessible ''id2''] fresh) = Some 2 \<and>
   map_option replies
     (run [CallStartCapture ''a'', CallStartCapture ''b'', DeviceChecked 0 accessible ''id1'',
           DeviceChecked 1 accessible ''id2'', DbReplied 2, DbReplied 3] fresh) =
     Some [(FStartCapture, RetCapture ''id1'' 0), (FStartCapture, RetCapture ''id2'' 0)]"
  by code_simp

subsection \<open>Stopping\<close>

text \<open>
  Claim C3, at the failing input. A preview is stopped and the subprocess reports
  nothing within 1000 ms: the timer callback resets the flags and resolves the call
  with success, and no \<^verbatim>\<open>previewStopped\<close> is emitted. When the subprocess reports
  \<^verbatim>\<open>end\<close> first, the notification is emitted.
\<close>

theorem stopPreview_timeout_is_silent:
  "map_option observe
     (run [CallStartPreview, ProcStart 0, CallStopPreview, Tick 1000, TimerFired 0, Microtask]
        fresh) =
     Some ([PreviewStarted], [(FStartPreview, RetSuccess), (FStopPreview, RetSuccess)], []) \<and>
   map_option (isPreviewing \<circ> cs)
     (run [CallStartPreview, ProcStart 0, CallStopPreview, Tick 1000, TimerFired 0, Microtask]
        fresh) = Some False \<and>
   map_option emitted
     (run [CallStartPreview, ProcStart 0, CallStopPreview, ProcEnd 0, Microtask] fresh) =
     Some [PreviewStarted, PreviewStopped]"
  by code_simp

text \<open>
  A stop that the subprocess answers with \<^verbatim>\<open>end\<close> half a second after the start: the
  \<^verbatim>\<open>end\<close> listener of \<^verbatim>\<open>startCapture\<close> does nothing, the route finalises once.
\<close>

lemma stop_answered_by_end:
  "map_option observe
     (run [CallStartCapture ''n'', DeviceChecked 0 accessible ''id1'', DbReplied 1, ProcStart 0,
           Tick 500, PostCaptureStop, ProcEnd 0, Microtask, DbReplied 2,
           TransferDone 3 (Inr []), DbReplied 4, DbReplied 5] fresh) =
     Some ([CaptureStarted ''id1'' 0, UploadComplete ''id1'', CaptureEnded ''id1'' 500],
           [(FStartCapture, RetCapture ''id1'' 0), (FStopRoute, RetSuccess)],
           [(''/app/uploads/id1.mp4'', ''id1'')])"
  by code_simp

text \<open>
  Claim C2, at the failing input. A stop is requested and the subprocess reports
  nothing within 2000 ms. The timer resolves \<^verbatim>\<open>stopCapture\<close>, the route finalises the
  session, uploads it, emits \<^verbatim>\<open>captureEnded\<close> and sets \<^verbatim>\<open>stopRequested\<close> back to
  false. When the subprocess then reports \<^verbatim>\<open>end\<close>, the \<^verbatim>\<open>end\<close> listener of
  \<^verbatim>\<open>startCapture\<close> finds the flag false and finalises the same session again: a second
  upload, a second \<^verbatim>\<open>uploadComplete\<close> and a second \<^verbatim>\<open>captureEnded\<close>.
\<close>

theorem late_end_finalises_again:
  "map_option observe
     (run [CallStartCapture ''n'', DeviceChecked 0 accessible ''id1'', DbReplied 1, ProcStart 0,
           Tick 500, PostCaptureStop, Tick 2000, TimerFired 0, Microtask, DbReplied 2,
           TransferDone 3 (Inr []), DbReplied 4, DbReplied 5,
           Tick 500, ProcEnd 0, DbReplied 6, TransferDone 7 (Inr []), DbReplied 8, DbReplied 9]
        fresh) =
     Some ([CaptureStarted ''id1'' 0, UploadComplete ''id1'', CaptureEnded ''id1'' 2500,
            UploadComplete ''id1'', CaptureEnded ''id1'' 3000],
           [(FStartCapture, RetCapture ''id1'' 0), (FStopRoute, RetSuccess)],
           [(''/app/uploads/id1.mp4'', ''id1''), (''/app/uploads/id1.mp4'', ''id1'')])"
  by code_simp

end
